theory Spec2Isabelle
  imports Complex_Main "HOL-Library.Multiset"
begin

section \<open>Shared data model (types/lobby.ts)\<close>

text \<open>
  JavaScript numbers that hold scores, round indices and countdowns are integers in every
  path of the program and are modelled as \<open>int\<close>; ball physics and timestamps are
  modelled over \<open>real\<close>. \<open>Math.random()\<close> and \<open>performance.now()\<close> are
  inputs of the functions that call them: a random draw is a real \<open>r\<close> with
  \<open>0 \<le> r < 1\<close>, the clock is a real \<open>now\<close> in milliseconds.

  \<open>Player\<close> objects are shared by reference between \<open>players\<close> and
  \<open>matches\<close> (and mutated through either), so they live in an explicit store
  \<open>objs\<close>: a reference is the index of the object in the store.
\<close>

datatype side = SLeft | SRight

datatype status = Waiting | Starting | InProgress | Paused | Finished

datatype mode = Local | Remote

datatype rtype = OneVOne | Tournament

text \<open>Errors as values: \<open>TypeError\<close> is the exception JavaScript throws when a
  property of \<open>undefined\<close> or \<open>null\<close> is read or written; the other two are the
  rejections a names handler sends back through its callback.\<close>

datatype error = TypeError | InvalidName nat | NameTaken "string option"

type_synonym ref = nat

record Player =
  playerId :: "int option"
  socketId :: "string option"
  name :: "string option"
  side :: "side option"

text \<open>A match holds references to its two players; a reference read from an array
  position that does not exist is \<open>undefined\<close>, here \<open>None\<close>.\<close>

record Match =
  player1 :: "ref option"
  player2 :: "ref option"
  p1score :: int
  p2score :: int
  winner :: "ref option"
  duration :: int

definition new_match :: "ref option \<Rightarrow> ref option \<Rightarrow> Match" where
  "new_match a b = \<lparr>player1 = a, player2 = b, p1score = 0, p2score = 0, winner = None, duration = 0\<rparr>"

text \<open>
  The fields the two room types have in common (\<open>GameState\<close> of the Paddle engine and
  \<open>state\<close> of the Reaction engine declare them with the same names and types), and
  the store of the \<open>Player\<close> objects the room refers to. The field \<open>round\<close> is
  written \<open>roundN\<close>, \<open>type\<close> is \<open>rtype\<close> and \<open>id\<close> is \<open>room_id\<close>.
\<close>

record room_base =
  room_id :: string
  players :: "ref list"
  matches :: "Match list"
  player1ready :: bool
  player2ready :: bool
  status :: status
  mode :: mode
  rtype :: rtype
  roundN :: int
  objs :: "Player list"

text \<open>\<open>xs[i]\<close>: \<open>undefined\<close> outside the array.\<close>

definition elem :: "'a list \<Rightarrow> int \<Rightarrow> 'a option" where
  "elem xs i = (if 0 \<le> i \<and> i < int (length xs) then Some (xs ! nat i) else None)"

text \<open>\<open>players.forEach(player => { player.side = null })\<close> and the assignment of a side
  through a reference.\<close>

definition resetPlayerSides :: "ref list \<Rightarrow> Player list \<Rightarrow> Player list" where
  "resetPlayerSides ps os = fold (\<lambda>r acc. acc[r := (acc ! r)\<lparr>side := None\<rparr>]) ps os"

definition set_side :: "ref \<Rightarrow> side \<Rightarrow> Player list \<Rightarrow> Player list" where
  "set_side r sd os = os[r := (os ! r)\<lparr>side := Some sd\<rparr>]"

text \<open>
  \<open>createGameResult\<close> (gameData) reads \<open>match.player1.name\<close> and
  \<open>match.player2.name\<close>: it throws when the match or one of its players is
  \<open>undefined\<close>. What it builds goes to the result sink only, so the model keeps just
  whether it returns.
\<close>

definition createGameResult_returns :: "Match option \<Rightarrow> bool" where
  "createGameResult_returns m =
     (case m of None \<Rightarrow> False | Some x \<Rightarrow> player1 x \<noteq> None \<and> player2 x \<noteq> None)"

subsection \<open>shufflePlayers (PingPongGame.ts)\<close>

text \<open>
  The Fisher-Yates loop \<open>for (i = length - 1; i > 0; i--)\<close>; \<open>rnd i\<close> is the value
  \<open>Math.random()\<close> returns in the iteration with index \<open>i\<close>. The destructuring swap
  writes position \<open>i\<close> first and position \<open>j\<close> second.
\<close>

primrec shuffle_loop :: "nat \<Rightarrow> (nat \<Rightarrow> real) \<Rightarrow> 'a list \<Rightarrow> 'a list" where
  "shuffle_loop 0 rnd xs = xs"
| "shuffle_loop (Suc i) rnd xs =
     (let j = nat \<lfloor>rnd (Suc i) * (real (Suc i) + 1)\<rfloor>
      in shuffle_loop i rnd (xs[Suc i := xs ! j, j := xs ! Suc i]))"

definition shufflePlayers :: "(nat \<Rightarrow> real) \<Rightarrow> 'a list \<Rightarrow> 'a list" where
  "shufflePlayers rnd xs = shuffle_loop (length xs - 1) rnd xs"

subsection \<open>The timers of the event loop\<close>

text \<open>
  \<open>setInterval\<close> registers a repeating callback and returns a fresh handle;
  \<open>clearInterval\<close> removes the timer with the given handle and does nothing for
  \<open>undefined\<close> or \<open>null\<close>. A timer that is still in \<open>timers\<close> keeps firing whether
  or not any state field still holds its handle.
\<close>

datatype callback = KeyClashTick | PongTick | PongTournamentTick | PongResumedTick

record event_loop =
  timers :: "(nat \<times> callback) list"
  next_handle :: nat

definition setInterval :: "callback \<Rightarrow> event_loop \<Rightarrow> nat \<times> event_loop" where
  "setInterval cb e =
     (next_handle e, e\<lparr>timers := timers e @ [(next_handle e, cb)], next_handle := next_handle e + 1\<rparr>)"

definition clearInterval :: "nat option \<Rightarrow> event_loop \<Rightarrow> event_loop" where
  "clearInterval h e =
     (case h of None \<Rightarrow> e | Some t \<Rightarrow> e\<lparr>timers := filter (\<lambda>p. fst p \<noteq> t) (timers e)\<rparr>)"

section \<open>Reaction engine (KeyClashGame.ts)\<close>

definition arrowKeys :: "string list" where
  "arrowKeys = [''ArrowUp'', ''ArrowDown'', ''ArrowLeft'', ''ArrowRight'']"

definition wasdKeys :: "string list" where
  "wasdKeys = [''w'', ''s'', ''a'', ''d'']"

text \<open>\<open>getRandomKey(keys)\<close>: \<open>keys[Math.floor(Math.random() * keys.length)]\<close>, with the
  random draw \<open>r\<close> as an argument.\<close>

definition getRandomKey :: "string list \<Rightarrow> real \<Rightarrow> string" where
  "getRandomKey keys r = keys ! nat \<lfloor>r * real (length keys)\<rfloor>"

text \<open>\<open>Array.prototype.indexOf\<close>: the first index of the element, or nothing (\<open>-1\<close>).\<close>

fun indexOf :: "'a list \<Rightarrow> 'a \<Rightarrow> nat option" where
  "indexOf [] k = None"
| "indexOf (x # xs) k = (if x = k then Some 0 else map_option Suc (indexOf xs k))"

text \<open>\<open>xs[i]\<close> for an index that may be absent or out of range (\<open>undefined\<close>).\<close>

definition at_index :: "'a list \<Rightarrow> nat option \<Rightarrow> 'a option" where
  "at_index xs i = (case i of None \<Rightarrow> None | Some n \<Rightarrow> if n < length xs then Some (xs ! n) else None)"

text \<open>The room state of the Reaction engine (interface \<open>state\<close>): the shared room
  fields, two scores, the two-element \<open>prompts\<close> array, the countdown, and
  \<open>interval\<close>, the handle of the repeating timer.\<close>

record state = room_base +
  score1 :: int
  score2 :: int
  prompts :: "string \<times> string"
  timeLeft :: int
  interval :: "nat option"
  p1 :: "string option"
  p2 :: "string option"

text \<open>The room object the \<open>create_game\<close> handlers of the two lobbies
  (quickmatch.ts, tournament.ts) build for a Reaction room.\<close>

definition newKeyClash :: "string \<Rightarrow> mode \<Rightarrow> rtype \<Rightarrow> state" where
  "newKeyClash i md ty =
     \<lparr>room_id = i, players = [], matches = [], player1ready = False, player2ready = False,
      status = Waiting, mode = md, rtype = ty, roundN = 0, objs = [],
      score1 = 0, score2 = 0, prompts = (''-'', ''-''), timeLeft = 20, interval = None,
      p1 = None, p2 = None\<rparr>"

text \<open>
  The \<open>keypress\<close> handler. \<open>cmode\<close> is the \<open>mode\<close> argument of the enclosing
  \<open>join_game_room\<close> handler, \<open>pl\<close> the reference of the \<open>player\<close> object the
  connection created when it submitted its names, and \<open>r\<close> the random draw used when a
  prompt is replaced. The broadcast of the state that ends the handler changes nothing.
\<close>

definition keypress :: "mode \<Rightarrow> ref \<Rightarrow> string \<Rightarrow> real \<Rightarrow> state \<Rightarrow> state" where
  "keypress cmode pl key r s =
    (if timeLeft s \<le> 0 \<or> status s \<noteq> InProgress then s
     else if cmode = Remote then
       (let s1 =
          (if side (objs s ! pl) = Some SLeft then
             (if key = fst (prompts s) \<or>
                 Some key = at_index arrowKeys (indexOf wasdKeys (fst (prompts s)))
              then s\<lparr>score1 := score1 s + 1, prompts := (getRandomKey wasdKeys r, snd (prompts s))\<rparr>
              else s\<lparr>score1 := score1 s - 1\<rparr>)
           else s)
        in
          (if side (objs s1 ! pl) = Some SRight then
             (if key = snd (prompts s1) \<or>
                 Some key = at_index wasdKeys (indexOf arrowKeys (snd (prompts s1)))
              then s1\<lparr>score2 := score2 s1 + 1, prompts := (fst (prompts s1), getRandomKey arrowKeys r)\<rparr>
              else s1\<lparr>score2 := score2 s1 - 1\<rparr>)
           else s1))
     else
       (if key \<in> set wasdKeys then
          (if key = fst (prompts s)
           then s\<lparr>score1 := score1 s + 1, prompts := (getRandomKey wasdKeys r, snd (prompts s))\<rparr>
           else s\<lparr>score1 := score1 s - 1\<rparr>)
        else if key \<in> set arrowKeys then
          (if key = snd (prompts s)
           then s\<lparr>score2 := score2 s + 1, prompts := (fst (prompts s), getRandomKey arrowKeys r)\<rparr>
           else s\<lparr>score2 := score2 s - 1\<rparr>)
        else s))"

subsection \<open>validatePlayerNames\<close>

text \<open>
  The names object a client submits; a field that is \<open>null\<close> or missing is \<open>None\<close>.
  \<open>validNameRegex\<close> is \<open>/^[A-Za-z0-9 _-]+$/\<close>: without the multiline flag the
  anchors are the two ends of the string, so the test asks for a non-empty string of
  characters of the class. \<open>bad_name p\<close> is the disjunction
  \<open>!p || p.length > 20 || !validNameRegex.test(p)\<close> (the empty string is falsy).
\<close>

record Names =
  name1 :: "string option"
  name2 :: "string option"
  name3 :: "string option"
  name4 :: "string option"

definition name_char :: "char \<Rightarrow> bool" where
  "name_char c =
     (let n = (of_char c :: nat)
      in (65 \<le> n \<and> n \<le> 90) \<or> (97 \<le> n \<and> n \<le> 122) \<or> (48 \<le> n \<and> n \<le> 57)
         \<or> c = CHR '' '' \<or> c = CHR ''_'' \<or> c = CHR ''-'')"

definition validNameRegex :: "string \<Rightarrow> bool" where
  "validNameRegex s = (s \<noteq> [] \<and> list_all name_char s)"

definition bad_name :: "string option \<Rightarrow> bool" where
  "bad_name p = (case p of None \<Rightarrow> True | Some s \<Rightarrow> s = [] \<or> length s > 20 \<or> \<not> validNameRegex s)"

definition validatePlayerNames :: "Names \<Rightarrow> rtype \<Rightarrow> mode \<Rightarrow> nat" where
  "validatePlayerNames n ty md =
     (if bad_name (name1 n) then 1
      else if md = Local then
        (if bad_name (name2 n) \<or> name2 n = name1 n then 2
         else if ty = Tournament then
           (if bad_name (name3 n) \<or> name3 n = name2 n then 3
            else if bad_name (name4 n) \<or> name4 n = name3 n then 4
            else 0)
         else 0)
      else 0)"

subsection \<open>matchmake\<close>

text \<open>
  \<open>seat_match k\<close> is the block that every branch of \<open>matchmake\<close> runs for match
  \<open>k\<close>: read the two names (a \<open>TypeError\<close> when the match or one of its players is
  \<open>undefined\<close>), clear every side, then seat player 1 left and player 2 right.
\<close>

definition seat_match :: "int \<Rightarrow> state \<Rightarrow> error + state" where
  "seat_match k s =
     (case elem (matches s) k of
        None \<Rightarrow> Inl TypeError
      | Some m \<Rightarrow>
          (case (player1 m, player2 m) of
             (Some a, Some b) \<Rightarrow>
               Inr (s\<lparr>p1 := name (objs s ! a), p2 := name (objs s ! b),
                      objs := set_side b SRight (set_side a SLeft (resetPlayerSides (players s) (objs s)))\<rparr>)
           | _ \<Rightarrow> Inl TypeError))"

definition finish_matchmake :: "state \<Rightarrow> state" where
  "finish_matchmake s = (if roundN s \<le> 3 then s\<lparr>status := Starting, timeLeft := 20\<rparr> else s)"

definition matchmake :: "(nat \<Rightarrow> real) \<Rightarrow> state \<Rightarrow> error + state" where
  "matchmake rnd s =
     (if roundN s = 1 then
        (let ps = shufflePlayers rnd (players s);
             s1 = s\<lparr>players := ps,
                    matches := matches s @ [new_match (elem ps 0) (elem ps 1),
                                            new_match (elem ps 2) (elem ps 3)]\<rparr>
         in map_sum (\<lambda>e. e) finish_matchmake (seat_match 0 s1))
      else if roundN s = 2 then map_sum (\<lambda>e. e) finish_matchmake (seat_match 1 s)
      else if roundN s = 3 then
        (case elem (matches s) 0 of
           None \<Rightarrow> Inl TypeError
         | Some m0 \<Rightarrow>
             (if winner m0 = None then Inr (finish_matchmake s)
              else
                (case elem (matches s) 1 of
                   None \<Rightarrow> Inl TypeError
                 | Some m1 \<Rightarrow>
                     (if winner m1 = None then Inr (finish_matchmake s)
                      else map_sum (\<lambda>e. e) finish_matchmake
                             (seat_match 2
                                (s\<lparr>matches := matches s @ [new_match (winner m0) (winner m1)]\<rparr>))))))
      else Inr (finish_matchmake s))"

subsection \<open>The names handler of \<open>join_game_room\<close>\<close>

text \<open>
  \<open>cmode\<close> and \<open>ctype\<close> are the \<open>mode\<close> and \<open>type\<close> arguments the client gave to
  \<open>join_game_room\<close> (the handler reads them, and the room's own \<open>state.type\<close>, as the
  source does); \<open>sock\<close> is \<open>socket.id\<close>. The new \<open>player\<close> object gets the reference
  \<open>length (objs s)\<close>. A rejection leaves the room as it was.
\<close>

definition push_player :: "Player \<Rightarrow> state \<Rightarrow> state" where
  "push_player p s = s\<lparr>players := players s @ [length (objs s)], objs := objs s @ [p]\<rparr>"

definition seated_name :: "state \<Rightarrow> nat \<Rightarrow> string option" where
  "seated_name s k = name (objs s ! (players s ! k))"

definition kc_name_taken :: "state \<Rightarrow> string option \<Rightarrow> bool" where
  "kc_name_taken s nm =
     ((length (players s) \<ge> 1 \<and> seated_name s 0 = nm)
      \<or> (length (players s) \<ge> 2 \<and> seated_name s 1 = nm)
      \<or> (length (players s) \<ge> 3 \<and> seated_name s 2 = nm))"

definition falsy :: "string option \<Rightarrow> bool" where
  "falsy x = (x = None \<or> x = Some [])"

definition kc_seat_first :: "string \<Rightarrow> int option \<Rightarrow> Names \<Rightarrow> state \<Rightarrow> state" where
  "kc_seat_first sock pid n s =
     (let pl = \<lparr>playerId = pid, socketId = Some sock, name = name1 n, side = None\<rparr>
      in if length (players s) = 0
            \<or> (length (players s) = 1 \<and> side (objs s ! (players s ! 0)) = Some SRight)
         then (let s1 = push_player (pl\<lparr>side := Some SLeft\<rparr>) s
               in if rtype s1 = OneVOne then s1\<lparr>p1 := name1 n\<rparr> else s1)
         else if length (players s) = 1 \<and> side (objs s ! (players s ! 0)) = Some SLeft
         then (let s1 = push_player (pl\<lparr>side := Some SRight\<rparr>) s
               in if rtype s1 = OneVOne then s1\<lparr>p2 := name1 n\<rparr> else s1)
         else push_player pl s)"

definition kc_seat_rest :: "mode \<Rightarrow> rtype \<Rightarrow> Names \<Rightarrow> state \<Rightarrow> state" where
  "kc_seat_rest cmode ctype n s =
     (if cmode = Local then
        (let s1 = push_player \<lparr>playerId = None, socketId = Some ''p2'', name = name2 n, side = Some SRight\<rparr> s;
             s2 = (if rtype s1 = OneVOne then s1\<lparr>p2 := name2 n\<rparr> else s1)
         in if ctype = Tournament then
              push_player \<lparr>playerId = None, socketId = Some ''p4'', name = name4 n, side = None\<rparr>
                (push_player \<lparr>playerId = None, socketId = Some ''p3'', name = name3 n, side = None\<rparr> s2)
            else s2)
      else
        (let s1 = (if falsy (p1 s) then s\<lparr>p1 := Some ''player 1''\<rparr> else s)
         in if falsy (p2 s1) then s1\<lparr>p2 := Some ''player 2''\<rparr> else s1))"

definition kc_after_seating :: "(nat \<Rightarrow> real) \<Rightarrow> state \<Rightarrow> error + state" where
  "kc_after_seating rnd s =
     (if (rtype s = OneVOne \<and> length (players s) < 2)
         \<or> (rtype s = Tournament \<and> length (players s) < 4)
      then Inr (s\<lparr>status := Waiting\<rparr>)
      else if rtype s = Tournament
      then matchmake rnd (s\<lparr>status := Starting, roundN := roundN s + 1\<rparr>)
      else Inr (s\<lparr>status := Starting, score1 := 0, score2 := 0, timeLeft := 20\<rparr>))"

definition kc_names :: "mode \<Rightarrow> rtype \<Rightarrow> string \<Rightarrow> int option \<Rightarrow> Names \<Rightarrow> (nat \<Rightarrow> real) \<Rightarrow> state
                          \<Rightarrow> error + state" where
  "kc_names cmode ctype sock pid n rnd s =
     (let p_num = validatePlayerNames n ctype cmode
      in if p_num > 0 then Inl (InvalidName p_num)
         else if kc_name_taken s (name1 n) then Inl (NameTaken (name1 n))
         else kc_after_seating rnd (kc_seat_rest cmode ctype n (kc_seat_first sock pid n s)))"

subsection \<open>The room, its timers and its registry entries\<close>

text \<open>
  What the handlers of one Reaction room act on: the room state, the timers of the
  event loop, and whether the room is still listed in \<open>keyClashRooms\<close> and in
  \<open>keyClashTournaments\<close>. Removing a room from a registry does not destroy it: the
  closures of its handlers and of its timer keep the reference.
\<close>

record kc_world =
  room :: state
  ev :: event_loop
  inKeyClashRooms :: bool
  inKeyClashTournaments :: bool

text \<open>\<open>startGame\<close>; \<open>ctype\<close> is the \<open>type\<close> argument of the enclosing handler,
  \<open>r1\<close> and \<open>r2\<close> the draws of the two first prompts.\<close>

definition startGame :: "rtype \<Rightarrow> real \<Rightarrow> real \<Rightarrow> kc_world \<Rightarrow> kc_world" where
  "startGame ctype r1 r2 w =
     (let s = room w in
      if status s = InProgress then w
      else
        (let s1 = s\<lparr>status := InProgress\<rparr>;
             s2 = (if ctype = OneVOne
                   then s1\<lparr>roundN := roundN s1 + 1,
                           matches := matches s1 @ [new_match (elem (players s1) 0) (elem (players s1) 1)]\<rparr>
                   else s1);
             s3 = s2\<lparr>score1 := 0, score2 := 0, timeLeft := 20,
                     prompts := (getRandomKey wasdKeys r1, getRandomKey arrowKeys r2)\<rparr>;
             (h, e) = setInterval KeyClashTick (ev w)
         in w\<lparr>room := s3\<lparr>interval := Some h\<rparr>, ev := e\<rparr>))"

text \<open>The \<open>setReady\<close> handler; \<open>pl\<close> is the connection's \<open>player\<close> object.\<close>

definition setReady :: "rtype \<Rightarrow> ref \<Rightarrow> real \<Rightarrow> real \<Rightarrow> kc_world \<Rightarrow> kc_world" where
  "setReady ctype pl r1 r2 w =
     (let s = room w in
      if (status s \<noteq> Starting \<and> status s \<noteq> Finished) \<or> (rtype s = Tournament \<and> status s = Finished)
      then w
      else if mode s = Local then startGame ctype r1 r2 w
      else
        (let s1 = (if status s = Finished then s\<lparr>status := Starting\<rparr> else s) in
         if side (objs s1 ! pl) = None then w\<lparr>room := s1\<rparr>
         else
           (let s2 = (if side (objs s1 ! pl) = Some SLeft then s1\<lparr>player1ready := True\<rparr>
                      else s1\<lparr>player2ready := True\<rparr>);
                s3 = s2\<lparr>score1 := 0, score2 := 0\<rparr>
            in if (rtype s3 = OneVOne \<and> length (players s3) = 2 \<and> player1ready s3 \<and> player2ready s3)
                  \<or> (rtype s3 = Tournament \<and> length (players s3) = 4 \<and> player1ready s3 \<and> player2ready s3)
               then startGame ctype r1 r2 (w\<lparr>room := s3\<rparr>)
               else w\<lparr>room := s3\<rparr>)))"

text \<open>
  The callback of the repeating timer, run once a second. The result sink
  (\<open>saveGameResult\<close>, which catches its own failures) and the broadcasts are outside
  the room and are left out.
  \<open>record_result\<close> is the part that writes the finished match.
\<close>

definition record_result :: "state \<Rightarrow> error + state" where
  "record_result s =
     (case elem (matches s) (roundN s - 1) of
        None \<Rightarrow> Inl TypeError
      | Some m \<Rightarrow>
          (let m1 = (if score1 s > score2 s then m\<lparr>winner := player1 m\<rparr>
                     else m\<lparr>winner := player2 m\<rparr>);
               m2 = m1\<lparr>p1score := score1 s, p2score := score2 s, duration := 20\<rparr>
           in Inr (s\<lparr>matches := (matches s)[nat (roundN s - 1) := m2]\<rparr>)))"

definition kc_tick :: "(nat \<Rightarrow> real) \<Rightarrow> kc_world \<Rightarrow> error + kc_world" where
  "kc_tick rnd w =
     (let s = (room w)\<lparr>timeLeft := timeLeft (room w) - 1\<rparr> in
      if timeLeft s \<le> 0 \<and> interval s \<noteq> None then
        (let e = clearInterval (interval s) (ev w);
             s1 = s\<lparr>interval := None, status := Finished, player1ready := False, player2ready := False\<rparr>
         in case record_result s1 of
              Inl x \<Rightarrow> Inl x
            | Inr s2 \<Rightarrow>
                (if \<not> createGameResult_returns (elem (matches s2) (roundN s2 - 1)) then Inl TypeError
                 else if rtype s2 = Tournament
                 then map_sum (\<lambda>x. x) (\<lambda>s3. w\<lparr>room := s3, ev := e\<rparr>)
                        (matchmake rnd (s2\<lparr>roundN := roundN s2 + 1\<rparr>))
                 else Inr (w\<lparr>room := s2, ev := e\<rparr>)))
      else Inr (w\<lparr>room := s\<rparr>))"

text \<open>The event loop fires a timer only while it is registered.\<close>

definition kc_fire :: "nat \<Rightarrow> (nat \<Rightarrow> real) \<Rightarrow> kc_world \<Rightarrow> error + kc_world" where
  "kc_fire h rnd w = (if h \<in> fst ` set (timers (ev w)) then kc_tick rnd w else Inr w)"

text \<open>
  The \<open>disconnect\<close> handler of the namespace, for a socket whose \<open>roomId\<close> is this
  room. \<open>findIndex\<close> and \<open>splice\<close> drop the first player with the socket's id.
\<close>

fun remove_socket :: "Player list \<Rightarrow> string \<Rightarrow> ref list \<Rightarrow> ref list" where
  "remove_socket os sock [] = []"
| "remove_socket os sock (r # rs) =
     (if socketId (os ! r) = Some sock then rs else r # remove_socket os sock rs)"

definition find_socket :: "Player list \<Rightarrow> string \<Rightarrow> ref list \<Rightarrow> ref option" where
  "find_socket os sock rs = List.find (\<lambda>r. socketId (os ! r) = Some sock) rs"

definition kc_disconnect :: "string \<Rightarrow> kc_world \<Rightarrow> kc_world" where
  "kc_disconnect sock w =
     (if \<not> inKeyClashRooms w \<and> \<not> inKeyClashTournaments w then w
      else
        (let g = room w;
             g1 = (case find_socket (objs g) sock (players g) of
                     None \<Rightarrow> g
                   | Some r \<Rightarrow>
                       (let g' = (if side (objs g ! r) = Some SLeft then g\<lparr>p1 := None\<rparr>
                                  else if side (objs g ! r) = Some SRight then g\<lparr>p2 := None\<rparr>
                                  else g)
                        in g'\<lparr>players := remove_socket (objs g) sock (players g)\<rparr>))
         in if rtype g1 = Tournament then
              (if status g1 \<noteq> Waiting \<or> length (players g1) = 0 \<or> mode g1 = Local
               then w\<lparr>room := g1, inKeyClashTournaments := False\<rparr>
               else w\<lparr>room := g1\<rparr>)
            else
              (let w1 = (if length (players g1) < 2
                         then w\<lparr>room := g1\<lparr>interval := None, status := Waiting,
                                            player1ready := False, player2ready := False\<rparr>,
                                 ev := clearInterval (interval g1) (ev w)\<rparr>
                         else w\<lparr>room := g1\<rparr>)
               in if length (players (room w1)) = 0 \<or> mode (room w1) = Local
                  then w1\<lparr>inKeyClashRooms := False\<rparr>
                  else w1)))"

section \<open>Paddle engine (PingPongGame.ts)\<close>

text \<open>
  The class \<open>PingPongGame\<close>: the public \<open>state\<close> object and the private fields in
  one record. The three display strings (\<open>timerDisplay\<close>, \<open>scoreDisplay\<close>,
  \<open>matchInfo\<close>) are written and never read by the server, and are left out together
  with \<open>updateScore\<close>, which only writes one of them. The private field \<open>last\<close> is
  \<open>last_now\<close>. The constants \<open>maxScore\<close>, \<open>bounds\<close> and \<open>gameDuration\<close> are
  never assigned after construction.
\<close>

record ball =
  ball_x :: real
  ball_z :: real
  ball_vx :: real
  ball_vz :: real
  ball_color :: nat

record paddle =
  paddle_x :: real
  paddle_z :: real

record PingPongGame = room_base +
  ball :: ball
  leftPaddle :: paddle
  rightPaddle :: paddle
  loop :: "nat option"
  gameEndTime :: real
  whenPaused :: real
  leftPlayer :: "string option"
  rightPlayer :: "string option"
  hitter :: nat
  leftScore :: int
  rightScore :: int
  last_now :: real

definition maxScore :: int where "maxScore = 3"

definition bounds_x :: real where "bounds_x = 9.6"

definition bounds_z :: real where "bounds_z = 5.6"

definition gameDuration :: real where "gameDuration = 120000"

text \<open>The constructor; \<open>t0\<close>, \<open>t1\<close>, \<open>t2\<close> are its three readings of the clock.\<close>

definition new_PingPongGame :: "string \<Rightarrow> mode \<Rightarrow> rtype \<Rightarrow> real \<Rightarrow> real \<Rightarrow> real \<Rightarrow> PingPongGame" where
  "new_PingPongGame i md ty t0 t1 t2 =
     \<lparr>room_id = i, players = [], matches = [], player1ready = False, player2ready = False,
      status = Waiting, mode = md, rtype = ty, roundN = 0, objs = [],
      ball = \<lparr>ball_x = 0, ball_z = 0, ball_vx = 6.0, ball_vz = 3.5, ball_color = 0xffffff\<rparr>,
      leftPaddle = \<lparr>paddle_x = -8.2, paddle_z = 0\<rparr>,
      rightPaddle = \<lparr>paddle_x = 8.2, paddle_z = 0\<rparr>,
      loop = None, gameEndTime = t1 + gameDuration, whenPaused = t2,
      leftPlayer = Some ''Player1'', rightPlayer = Some ''Player2'',
      hitter = 0, leftScore = 0, rightScore = 0, last_now = t0\<rparr>"

definition setPlayer :: "side option \<Rightarrow> string option \<Rightarrow> string option \<Rightarrow> int option
                           \<Rightarrow> PingPongGame \<Rightarrow> PingPongGame" where
  "setPlayer sd nm sock pid g =
     (let g1 = (if sd = Some SLeft then g\<lparr>leftPlayer := nm\<rparr>
                else if sd = Some SRight then g\<lparr>rightPlayer := nm\<rparr>
                else g)
      in g1\<lparr>players := players g1 @ [length (objs g1)],
             objs := objs g1 @ [\<lparr>playerId = pid, socketId = sock, name = nm, side = sd\<rparr>]\<rparr>)"

text \<open>\<open>resetGame\<close>: \<open>r1\<close> and \<open>r2\<close> are its two random draws, \<open>now\<close> the clock.\<close>

definition serve :: "real \<Rightarrow> real \<Rightarrow> ball" where
  "serve r1 r2 =
     \<lparr>ball_x = 0, ball_z = 0, ball_vx = (if r1 > 0.5 then 1 else -1) * 6,
      ball_vz = (r2 - 0.5) * 4, ball_color = 0xffffff\<rparr>"

definition resetGame :: "real \<Rightarrow> real \<Rightarrow> real \<Rightarrow> PingPongGame \<Rightarrow> PingPongGame" where
  "resetGame now r1 r2 g =
     g\<lparr>leftScore := 0, rightScore := 0, hitter := 0, ball := serve r1 r2,
       leftPaddle := (leftPaddle g)\<lparr>paddle_z := 0\<rparr>,
       rightPaddle := (rightPaddle g)\<lparr>paddle_z := 0\<rparr>,
       last_now := now, gameEndTime := now + gameDuration\<rparr>"

subsection \<open>update\<close>

text \<open>The branch of \<open>update\<close> taken when the clock has reached \<open>gameEndTime\<close>.\<close>

definition finish_timeout :: "PingPongGame \<Rightarrow> error + PingPongGame" where
  "finish_timeout g =
     (case elem (matches g) (roundN g - 1) of
        None \<Rightarrow> Inl TypeError
      | Some m \<Rightarrow>
          (let m1 = m\<lparr>p1score := leftScore g, p2score := rightScore g, duration := 120\<rparr>;
               m2 = (if leftScore g > rightScore g then m1\<lparr>winner := player1 m1\<rparr>
                     else if rightScore g > leftScore g then m1\<lparr>winner := player2 m1\<rparr>
                     else if rtype g = OneVOne then m1
                     else m1\<lparr>winner := player2 m1\<rparr>)
           in Inr (g\<lparr>status := Finished, matches := (matches g)[nat (roundN g - 1) := m2]\<rparr>)))"

text \<open>
  The branch taken when a score has reached \<open>maxScore\<close>; \<open>secs\<close> is
  \<open>totalSecondsLeft\<close>. The message it builds reads \<open>winner.name\<close> without a guard in a
  1v1 room and before round 3, and \<open>matches[2].winner?.name\<close> otherwise.
\<close>

definition finish_score :: "int \<Rightarrow> PingPongGame \<Rightarrow> error + PingPongGame" where
  "finish_score secs g =
     (case elem (matches g) (roundN g - 1) of
        None \<Rightarrow> Inl TypeError
      | Some m \<Rightarrow>
          (let m1 = m\<lparr>p1score := leftScore g, p2score := rightScore g, duration := 120 - secs\<rparr>;
               m2 = (if leftScore g > rightScore g then m1\<lparr>winner := player1 m1\<rparr>
                     else m1\<lparr>winner := player2 m1\<rparr>);
               ms = (matches g)[nat (roundN g - 1) := m2]
           in if rtype g = OneVOne \<or> roundN g < 3
              then (if winner m2 = None then Inl TypeError
                    else Inr (g\<lparr>status := Finished, matches := ms\<rparr>))
              else (if elem ms 2 = None then Inl TypeError
                    else Inr (g\<lparr>status := Finished, matches := ms\<rparr>))))"

text \<open>The four steps of a tick that neither times out nor ends on the score.\<close>

definition move_ball :: "real \<Rightarrow> PingPongGame \<Rightarrow> PingPongGame" where
  "move_ball dt g =
     g\<lparr>ball := (ball g)\<lparr>ball_z := ball_z (ball g) + ball_vz (ball g) * dt,
                         ball_x := ball_x (ball g) + ball_vx (ball g) * dt\<rparr>\<rparr>"

definition bounce :: "PingPongGame \<Rightarrow> PingPongGame" where
  "bounce g =
     (let b = ball g in
      if ball_z b > bounds_z \<or> ball_z b < - bounds_z then
        (let b1 = (if ball_z b > bounds_z then b\<lparr>ball_z := bounds_z\<rparr>
                   else if ball_z b < - bounds_z then b\<lparr>ball_z := - bounds_z\<rparr>
                   else b)
         in g\<lparr>ball := b1\<lparr>ball_vz := ball_vz b1 * (-1)\<rparr>\<rparr>)
      else g)"

definition paddleHit :: "paddle \<Rightarrow> PingPongGame \<Rightarrow> bool" where
  "paddleHit pd g =
     (let dx = \<bar>ball_x (ball g) - paddle_x pd\<bar>; dz = \<bar>ball_z (ball g) - paddle_z pd\<bar>
      in dx < 1.5 \<and> dz < 2.0)"

definition paddle_collision :: "PingPongGame \<Rightarrow> PingPongGame" where
  "paddle_collision g =
     (let g1 = (if paddleHit (leftPaddle g) g \<and> ball_vx (ball g) < 0
                then g\<lparr>ball := (ball g)\<lparr>ball_vx := ball_vx (ball g) * (-1.05),
                                        ball_vz := ball_vz (ball g)
                                                   + (ball_z (ball g) - paddle_z (leftPaddle g)) * 2.0,
                                        ball_color := 0xff6b6b\<rparr>,
                       hitter := 1\<rparr>
                else g)
      in if paddleHit (rightPaddle g1) g1 \<and> ball_vx (ball g1) > 0
         then g1\<lparr>ball := (ball g1)\<lparr>ball_vx := ball_vx (ball g1) * (-1.05),
                                  ball_vz := ball_vz (ball g1)
                                             + (ball_z (ball g1) - paddle_z (rightPaddle g1)) * 2.0,
                                  ball_color := 0x6b8cff\<rparr>,
                 hitter := 2\<rparr>
         else g1)"

definition score_and_reset :: "real \<Rightarrow> real \<Rightarrow> PingPongGame \<Rightarrow> PingPongGame" where
  "score_and_reset r1 r2 g =
     (if ball_x (ball g) < - bounds_x \<or> ball_x (ball g) > bounds_x then
        (let g1 = (if ball_x (ball g) < - bounds_x \<and> hitter g \<noteq> 0
                   then g\<lparr>hitter := 0, rightScore := rightScore g + 1\<rparr>
                   else if ball_x (ball g) > bounds_x \<and> hitter g \<noteq> 0
                   then g\<lparr>hitter := 0, leftScore := leftScore g + 1\<rparr>
                   else g)
         in g1\<lparr>ball := serve r1 r2\<rparr>)
      else g)"

text \<open>\<open>dt\<close> as \<open>update\<close> computes it from the clock and \<open>last\<close>.\<close>

definition tick_dt :: "real \<Rightarrow> PingPongGame \<Rightarrow> real" where
  "tick_dt now g = min ((now - last_now g) / 1000) 0.033"

definition update :: "real \<Rightarrow> real \<Rightarrow> real \<Rightarrow> PingPongGame \<Rightarrow> error + PingPongGame" where
  "update now r1 r2 g =
     (if status g \<noteq> InProgress then Inr g
      else
        (let totalSecondsLeft = max 0 \<lfloor>(gameEndTime g - now) / 1000\<rfloor> in
         if now \<ge> gameEndTime g then finish_timeout g
         else
           (let dt = tick_dt now g; g1 = g\<lparr>last_now := now\<rparr> in
            if leftScore g1 \<ge> maxScore \<or> rightScore g1 \<ge> maxScore
            then finish_score totalSecondsLeft g1
            else Inr (score_and_reset r1 r2 (paddle_collision (bounce (move_ball dt g1)))))))"

subsection \<open>matchmake\<close>

definition pp_seat_match :: "int \<Rightarrow> PingPongGame \<Rightarrow> error + PingPongGame" where
  "pp_seat_match k g =
     (case elem (matches g) k of
        None \<Rightarrow> Inl TypeError
      | Some m \<Rightarrow>
          (case (player1 m, player2 m) of
             (Some a, Some b) \<Rightarrow>
               Inr (g\<lparr>leftPlayer := name (objs g ! a), rightPlayer := name (objs g ! b),
                      objs := set_side b SRight (set_side a SLeft (resetPlayerSides (players g) (objs g)))\<rparr>)
           | _ \<Rightarrow> Inl TypeError))"

definition pp_matchmake :: "(nat \<Rightarrow> real) \<Rightarrow> PingPongGame \<Rightarrow> error + PingPongGame" where
  "pp_matchmake rnd g =
     (if roundN g = 1 then
        (let ps = shufflePlayers rnd (players g)
         in pp_seat_match 0
              (g\<lparr>players := ps,
                 matches := matches g @ [new_match (elem ps 0) (elem ps 1),
                                         new_match (elem ps 2) (elem ps 3)]\<rparr>))
      else if roundN g = 2 then pp_seat_match 1 g
      else if roundN g = 3 then
        (case elem (matches g) 0 of
           None \<Rightarrow> Inl TypeError
         | Some m0 \<Rightarrow>
             (if winner m0 = None then Inr g
              else
                (case elem (matches g) 1 of
                   None \<Rightarrow> Inl TypeError
                 | Some m1 \<Rightarrow>
                     (if winner m1 = None then Inr g
                      else pp_seat_match 2
                             (g\<lparr>matches := matches g @ [new_match (winner m0) (winner m1)]\<rparr>)))))
      else Inr g)"

section \<open>The handlers of the Paddle rooms (setupPongNamespace)\<close>

subsection \<open>Joining: the names handlers\<close>

text \<open>
  The names handler of \<open>join_game_room\<close> (1v1 rooms). \<open>playerSide\<close> is the variable
  of that name in the closure of the connection (\<open>left\<close> when the connection joins); the
  handler returns its new value with the room.
\<close>

definition pp_seated_name :: "PingPongGame \<Rightarrow> nat \<Rightarrow> string option" where
  "pp_seated_name g k = name (objs g ! (players g ! k))"

definition pp_names :: "string \<Rightarrow> int option \<Rightarrow> Names \<Rightarrow> real \<Rightarrow> real \<Rightarrow> real \<Rightarrow> side option
                          \<Rightarrow> PingPongGame \<Rightarrow> error + (side option \<times> PingPongGame)" where
  "pp_names sock pid n now r1 r2 playerSide g =
     (let p_num = validatePlayerNames n (rtype g) (mode g) in
      if p_num > 0 then Inl (InvalidName p_num)
      else if length (players g) = 1 \<and> pp_seated_name g 0 = name1 n then Inl (NameTaken (name1 n))
      else
        (let ps1 = (if length (players g) = 1 \<and> side (objs g ! (players g ! 0)) = Some SLeft
                    then Some SRight else playerSide);
             g1 = setPlayer ps1 (name1 n) (Some sock) pid g;
             g2 = (if mode g1 = Local then setPlayer (Some SRight) (name2 n) (Some ''p2'') None g1 else g1);
             ps2 = (if mode g1 = Local then None else ps1);
             g3 = (if length (players g2) = 2 then (resetGame now r1 r2 g2)\<lparr>status := Starting\<rparr> else g2)
         in Inr (ps2, g3)))"

text \<open>The names handler of \<open>join_tournament_room\<close>.\<close>

definition pp_name_taken :: "PingPongGame \<Rightarrow> string option \<Rightarrow> bool" where
  "pp_name_taken g nm =
     ((length (players g) \<ge> 1 \<and> pp_seated_name g 0 = nm)
      \<or> (length (players g) \<ge> 2 \<and> pp_seated_name g 1 = nm)
      \<or> (length (players g) = 3 \<and> pp_seated_name g 2 = nm))"

definition pp_names_tournament :: "string \<Rightarrow> int option \<Rightarrow> Names \<Rightarrow> (nat \<Rightarrow> real)
                                     \<Rightarrow> PingPongGame \<Rightarrow> error + PingPongGame" where
  "pp_names_tournament sock pid n rnd g =
     (let p_num = validatePlayerNames n (rtype g) (mode g) in
      if p_num > 0 then Inl (InvalidName p_num)
      else if pp_name_taken g (name1 n) then Inl (NameTaken (name1 n))
      else
        (let g1 = setPlayer None (name1 n) (Some sock) pid g;
             g2 = (if mode g1 = Local
                   then setPlayer None (name4 n) (Some ''p4'') None
                          (setPlayer None (name3 n) (Some ''p3'') None
                             (setPlayer None (name2 n) (Some ''p2'') None g1))
                   else g1)
         in if length (players g2) = 4
            then pp_matchmake rnd (g2\<lparr>status := Starting, roundN := roundN g2 + 1\<rparr>)
            else Inr g2))"

subsection \<open>The room, its timers and its registry entries\<close>

record pong_world =
  game :: PingPongGame
  pev :: event_loop
  inPongRooms :: bool
  inPongTournaments :: bool

text \<open>\<open>move\<close>: the client names the paddle and gives its new position.\<close>

definition move :: "side option \<Rightarrow> real \<Rightarrow> pong_world \<Rightarrow> pong_world" where
  "move sd positionZ w =
     (if sd = Some SLeft then w\<lparr>game := (game w)\<lparr>leftPaddle := (leftPaddle (game w))\<lparr>paddle_z := positionZ\<rparr>\<rparr>\<rparr>
      else if sd = Some SRight
      then w\<lparr>game := (game w)\<lparr>rightPaddle := (rightPaddle (game w))\<lparr>paddle_z := positionZ\<rparr>\<rparr>\<rparr>
      else w)"

text \<open>\<open>startGame\<close> of a 1v1 room.\<close>

definition find_side :: "Player list \<Rightarrow> side \<Rightarrow> ref list \<Rightarrow> ref option" where
  "find_side os sd rs = List.find (\<lambda>r. side (os ! r) = Some sd) rs"

definition pp_startGame :: "real \<Rightarrow> real \<Rightarrow> real \<Rightarrow> pong_world \<Rightarrow> pong_world" where
  "pp_startGame now r1 r2 w =
     (let g = (game w)\<lparr>status := InProgress\<rparr> in
      if loop g \<noteq> None then w\<lparr>game := g\<rparr>
      else
        (case (find_side (objs g) SLeft (players g), find_side (objs g) SRight (players g)) of
           (Some a, Some b) \<Rightarrow>
             (let g1 = g\<lparr>matches := matches g @ [new_match (Some a) (Some b)], roundN := roundN g + 1\<rparr>;
                  g2 = (resetGame now r1 r2 g1)\<lparr>player1ready := False, player2ready := False\<rparr>;
                  (h, e) = setInterval PongTick (pev w)
              in w\<lparr>game := g2\<lparr>loop := Some h\<rparr>, pev := e\<rparr>)
         | _ \<Rightarrow> w\<lparr>game := g\<rparr>))"

text \<open>The \<open>setReady\<close> and \<open>restart\<close> handlers of a 1v1 room.\<close>

definition pp_setReady :: "side option \<Rightarrow> real \<Rightarrow> real \<Rightarrow> real \<Rightarrow> pong_world \<Rightarrow> pong_world" where
  "pp_setReady playerSide now r1 r2 w =
     (let g = game w in
      if status g = InProgress \<or> status g = Paused \<or> length (players g) < 2 then w
      else if mode g = Local then pp_startGame now r1 r2 w
      else if status g \<noteq> Starting then w
      else if playerSide = None then w
      else
        (let g1 = (if playerSide = Some SLeft then g\<lparr>player1ready := True\<rparr>
                   else g\<lparr>player2ready := True\<rparr>)
         in if length (players g1) = 2 \<and> player1ready g1 \<and> player2ready g1
            then pp_startGame now r1 r2 (w\<lparr>game := g1\<rparr>)
            else w\<lparr>game := g1\<rparr>))"

definition pp_restart :: "real \<Rightarrow> real \<Rightarrow> real \<Rightarrow> pong_world \<Rightarrow> pong_world" where
  "pp_restart now r1 r2 w =
     (if mode (game w) = Local then pp_startGame now r1 r2 w
      else w\<lparr>game := (resetGame now r1 r2 (game w))\<lparr>status := Starting\<rparr>\<rparr>)"

text \<open>\<open>startGame\<close> and \<open>setReady\<close> of a tournament room; \<open>pl\<close> is the connection's
  \<open>player\<close>, found by its socket id when the names were accepted.\<close>

definition pp_startGame_tournament :: "real \<Rightarrow> real \<Rightarrow> real \<Rightarrow> pong_world \<Rightarrow> pong_world" where
  "pp_startGame_tournament now r1 r2 w =
     (if loop (game w) \<noteq> None then w
      else
        (let g = (resetGame now r1 r2 ((game w)\<lparr>status := InProgress\<rparr>))
                   \<lparr>player1ready := False, player2ready := False\<rparr>;
             (h, e) = setInterval PongTournamentTick (pev w)
         in w\<lparr>game := g\<lparr>loop := Some h\<rparr>, pev := e\<rparr>))"

definition pp_setReady_tournament :: "ref option \<Rightarrow> real \<Rightarrow> real \<Rightarrow> real \<Rightarrow> pong_world \<Rightarrow> pong_world" where
  "pp_setReady_tournament pl now r1 r2 w =
     (let g = game w in
      if status g \<noteq> Starting \<or> length (players g) < 4 then w
      else if mode g = Local then pp_startGame_tournament now r1 r2 w
      else
        (case (case pl of None \<Rightarrow> None | Some r \<Rightarrow> side (objs g ! r)) of
           None \<Rightarrow> w
         | Some sd \<Rightarrow>
             (let g1 = (if sd = SLeft then g\<lparr>player1ready := True\<rparr> else g\<lparr>player2ready := True\<rparr>)
              in if length (players g1) = 4 \<and> player1ready g1 \<and> player2ready g1
                 then pp_startGame_tournament now r1 r2 (w\<lparr>game := g1\<rparr>)
                 else w\<lparr>game := g1\<rparr>)))"

subsection \<open>Pause\<close>

text \<open>\<open>togglePause\<close> and the \<open>pause\<close> handler that guards it; \<open>now\<close> is the reading of
  the clock the branch taken makes.\<close>

definition togglePause :: "real \<Rightarrow> pong_world \<Rightarrow> pong_world" where
  "togglePause now w =
     (let g = game w in
      if loop g \<noteq> None then
        w\<lparr>game := g\<lparr>whenPaused := now, loop := None, status := Paused\<rparr>,
          pev := clearInterval (loop g) (pev w)\<rparr>
      else if status g = Paused then
        (let g1 = g\<lparr>status := InProgress, gameEndTime := gameEndTime g + (now - whenPaused g)\<rparr>;
             (h, e) = setInterval PongResumedTick (pev w)
         in w\<lparr>game := g1\<lparr>loop := Some h\<rparr>, pev := e\<rparr>)
      else w)"

definition pause :: "real \<Rightarrow> pong_world \<Rightarrow> pong_world" where
  "pause now w = (if mode (game w) = Local then togglePause now w else w)"

subsection \<open>The tick callbacks\<close>

text \<open>
  Each of the three \<open>setInterval\<close> callbacks runs \<open>update\<close>, broadcasts, and, when the
  status is \<open>finished\<close>, cancels the timer held in \<open>state.loop\<close> and does its own
  bookkeeping. \<open>next_round\<close> is the part the two tournament paths share.
\<close>

definition next_round :: "(nat \<Rightarrow> real) \<Rightarrow> PingPongGame \<Rightarrow> error + PingPongGame" where
  "next_round rnd g =
     (case pp_matchmake rnd (g\<lparr>roundN := roundN g + 1\<rparr>) of
        Inl x \<Rightarrow> Inl x
      | Inr g1 \<Rightarrow> Inr (if roundN g1 \<le> 3 then g1\<lparr>status := Starting\<rparr> else g1))"

definition after_update :: "callback \<Rightarrow> (nat \<Rightarrow> real) \<Rightarrow> PingPongGame \<Rightarrow> pong_world \<Rightarrow> error + pong_world" where
  "after_update cb rnd g w =
     (if status g \<noteq> Finished then Inr (w\<lparr>game := g\<rparr>)
      else
        (let e = clearInterval (loop g) (pev w); g1 = g\<lparr>loop := None\<rparr> in
         if cb = PongTick then
           (if createGameResult_returns (elem (matches g) (roundN g - 1))
            then Inr (w\<lparr>game := g1, pev := e\<rparr>) else Inl TypeError)
         else if cb = PongTournamentTick then
           (if createGameResult_returns (elem (matches g) (roundN g - 1))
            then map_sum (\<lambda>x. x) (\<lambda>g2. w\<lparr>game := g2, pev := e\<rparr>) (next_round rnd g1)
            else Inl TypeError)
         else if rtype g = Tournament
         then map_sum (\<lambda>x. x) (\<lambda>g2. w\<lparr>game := g2, pev := e\<rparr>) (next_round rnd g1)
         else Inr (w\<lparr>game := g1, pev := e\<rparr>)))"

definition pp_tick :: "callback \<Rightarrow> real \<Rightarrow> real \<Rightarrow> real \<Rightarrow> (nat \<Rightarrow> real) \<Rightarrow> pong_world \<Rightarrow> error + pong_world" where
  "pp_tick cb now r1 r2 rnd w =
     (case update now r1 r2 (game w) of
        Inl x \<Rightarrow> Inl x
      | Inr g \<Rightarrow> after_update cb rnd g w)"

text \<open>The event loop fires a timer only while it is registered, and runs the callback
  it was registered with.\<close>

definition pp_fire :: "nat \<Rightarrow> real \<Rightarrow> real \<Rightarrow> real \<Rightarrow> (nat \<Rightarrow> real) \<Rightarrow> pong_world \<Rightarrow> error + pong_world" where
  "pp_fire h now r1 r2 rnd w =
     (case map_of (timers (pev w)) h of
        None \<Rightarrow> Inr w
      | Some cb \<Rightarrow> pp_tick cb now r1 r2 rnd w)"

subsection \<open>Disconnect\<close>

definition pp_disconnect :: "string \<Rightarrow> pong_world \<Rightarrow> pong_world" where
  "pp_disconnect sock w =
     (if \<not> inPongRooms w \<and> \<not> inPongTournaments w then w
      else
        (let g = (game w)\<lparr>players := remove_socket (objs (game w)) sock (players (game w))\<rparr> in
         if rtype g = Tournament then
           (if status g \<noteq> Waiting \<or> length (players g) = 0 \<or> mode g = Local
            then w\<lparr>game := g, inPongTournaments := False\<rparr>
            else w\<lparr>game := g\<rparr>)
         else
           (let w1 = (if length (players g) < 2
                      then w\<lparr>game := g\<lparr>loop := None, status := Waiting\<rparr>,
                              pev := clearInterval (loop g) (pev w)\<rparr>
                      else w\<lparr>game := g\<rparr>)
            in if length (players g) = 0 \<or> mode g = Local
               then w1\<lparr>inPongRooms := False\<rparr>
               else w1)))"

subsection \<open>The states a Paddle room can reach\<close>

text \<open>
  A room starts as the constructor leaves it, listed in the registry of its type and
  with no timer, and changes only through the handlers above, for any arguments a
  client or the clock may supply. Every handler is admitted on every room, which covers
  the handlers a room of either type really has.
\<close>

definition new_pong_world :: "string \<Rightarrow> mode \<Rightarrow> rtype \<Rightarrow> real \<Rightarrow> real \<Rightarrow> real \<Rightarrow> pong_world" where
  "new_pong_world i md ty t0 t1 t2 =
     \<lparr>game = new_PingPongGame i md ty t0 t1 t2, pev = \<lparr>timers = [], next_handle = 0\<rparr>,
      inPongRooms = (ty = OneVOne), inPongTournaments = (ty = Tournament)\<rparr>"

inductive pong_reachable :: "pong_world \<Rightarrow> bool" where
  created: "pong_reachable (new_pong_world i md ty t0 t1 t2)"
| names: "pong_reachable w \<Longrightarrow> pp_names sock pid n now r1 r2 ps (game w) = Inr (ps', g)
            \<Longrightarrow> pong_reachable (w\<lparr>game := g\<rparr>)"
| names_tournament: "pong_reachable w \<Longrightarrow> pp_names_tournament sock pid n rnd (game w) = Inr g
            \<Longrightarrow> pong_reachable (w\<lparr>game := g\<rparr>)"
| moved: "pong_reachable w \<Longrightarrow> pong_reachable (move sd positionZ w)"
| ready: "pong_reachable w \<Longrightarrow> pong_reachable (pp_setReady ps now r1 r2 w)"
| ready_tournament: "pong_reachable w \<Longrightarrow> pong_reachable (pp_setReady_tournament pl now r1 r2 w)"
| restarted: "pong_reachable w \<Longrightarrow> pong_reachable (pp_restart now r1 r2 w)"
| paused: "pong_reachable w \<Longrightarrow> pong_reachable (pause now w)"
| fired: "pong_reachable w \<Longrightarrow> pp_fire h now r1 r2 rnd w = Inr w' \<Longrightarrow> pong_reachable w'"
| disconnected: "pong_reachable w \<Longrightarrow> pong_reachable (pp_disconnect sock w)"

section \<open>Invariants and example rooms\<close>

text \<open>The table bounds of the ball, and the fact that the two scores never both reach
  \<open>maxScore\<close>.\<close>

definition ball_ok :: "PingPongGame \<Rightarrow> bool" where
  "ball_ok g = (\<bar>ball_x (ball g)\<bar> \<le> 9.6 \<and> \<bar>ball_z (ball g)\<bar> \<le> 5.6)"

definition scores_ok :: "PingPongGame \<Rightarrow> bool" where
  "scores_ok g = (\<not> (leftScore g \<ge> maxScore \<and> rightScore g \<ge> maxScore))"

definition pp_inv :: "PingPongGame \<Rightarrow> bool" where
  "pp_inv g = (ball_ok g \<and> scores_ok g)"

text \<open>
  A local 1v1 Paddle room: created at time 0, joined by one connection that submits the
  names Ann and Bob, and started at time 1000 by that connection's ready signal.
\<close>

definition demo_names :: Names where
  "demo_names = \<lparr>name1 = Some ''Ann'', name2 = Some ''Bob'', name3 = Some ''Cy'', name4 = Some ''Di''\<rparr>"

definition demo_objs :: "Player list" where
  "demo_objs = [\<lparr>playerId = None, socketId = Some ''s1'', name = Some ''Ann'', side = Some SLeft\<rparr>,
                \<lparr>playerId = None, socketId = Some ''p2'', name = Some ''Bob'', side = Some SRight\<rparr>]"

definition pong_joined :: PingPongGame where
  "pong_joined =
     \<lparr>room_id = ''r1'', players = [0, 1], matches = [], player1ready = False, player2ready = False,
      status = Starting, mode = Local, rtype = OneVOne, roundN = 0, objs = demo_objs,
      ball = \<lparr>ball_x = 0, ball_z = 0, ball_vx = 6, ball_vz = 0, ball_color = 0xffffff\<rparr>,
      leftPaddle = \<lparr>paddle_x = -8.2, paddle_z = 0\<rparr>,
      rightPaddle = \<lparr>paddle_x = 8.2, paddle_z = 0\<rparr>,
      loop = None, gameEndTime = 120000, whenPaused = 0,
      leftPlayer = Some ''Ann'', rightPlayer = Some ''Bob'',
      hitter = 0, leftScore = 0, rightScore = 0, last_now = 0\<rparr>"

definition pong_started :: pong_world where
  "pong_started =
     \<lparr>game = pong_joined\<lparr>matches := [new_match (Some 0) (Some 1)], status := InProgress, roundN := 1,
                          loop := Some 0, gameEndTime := 121000, last_now := 1000\<rparr>,
      pev = \<lparr>timers = [(0, PongTick)], next_handle = 1\<rparr>,
      inPongRooms = True, inPongTournaments = False\<rparr>"

text \<open>The same room after its timer has fired once, 16 ms after the start.\<close>

definition pong_ticked :: PingPongGame where
  "pong_ticked =
     (game pong_started)\<lparr>last_now := 1016,
        ball := \<lparr>ball_x = 0.096, ball_z = 0, ball_vx = 6, ball_vz = 0, ball_color = 0xffffff\<rparr>\<rparr>"

text \<open>
  The started room when its timer fires a whole second after the start (\<open>pong_late\<close>
  is the result), and a rally in it: the left paddle has touched the ball
  (\<open>hitter = 1\<close>), the ball is about to leave on the right, and the right paddle is out
  of reach. \<open>pong_rally_stage\<close> is the room after the ball has moved in the tick at
  1016 ms, \<open>pong_scored\<close> the room when that tick returns.
\<close>

definition pong_late :: PingPongGame where
  "pong_late =
     (game pong_started)\<lparr>last_now := 2000,
        ball := \<lparr>ball_x = 0.198, ball_z = 0, ball_vx = 6, ball_vz = 0, ball_color = 0xffffff\<rparr>\<rparr>"




section \<open>Properties of the Paddle engine\<close>

subsection \<open>What every reachable room satisfies\<close>

lemma map_sum_InrD: "map_sum f h x = Inr y \<Longrightarrow> \<exists>z. x = Inr z \<and> y = h z"
  by (cases x) auto

lemma pp_inv_cong:
  "ball g' = ball g \<Longrightarrow> leftScore g' = leftScore g \<Longrightarrow> rightScore g' = rightScore g
     \<Longrightarrow> pp_inv g' = pp_inv g"
  by (simp add: pp_inv_def ball_ok_def scores_ok_def)

lemma serve_centre [simp]: "ball_x (serve r1 r2) = 0" "ball_z (serve r1 r2) = 0"
  by (simp_all add: serve_def)

lemma bounce_ball_z: "\<bar>ball_z (ball (bounce h))\<bar> \<le> 5.6"
  by (auto simp: bounce_def Let_def bounds_z_def)

lemma bounce_other:
  "ball_x (ball (bounce h)) = ball_x (ball h)" "leftScore (bounce h) = leftScore h"
  "rightScore (bounce h) = rightScore h" "hitter (bounce h) = hitter h"
  by (simp_all add: bounce_def Let_def)

lemma paddle_collision_other:
  "ball_x (ball (paddle_collision h)) = ball_x (ball h)"
  "ball_z (ball (paddle_collision h)) = ball_z (ball h)"
  "leftScore (paddle_collision h) = leftScore h" "rightScore (paddle_collision h) = rightScore h"
  by (simp_all add: paddle_collision_def Let_def)

lemma score_and_reset_ball_ok:
  "\<bar>ball_z (ball h)\<bar> \<le> 5.6 \<Longrightarrow> ball_ok (score_and_reset r1 r2 h)"
  by (auto simp: score_and_reset_def ball_ok_def bounds_x_def Let_def)

lemma score_and_reset_scores_ok:
  "leftScore h < maxScore \<Longrightarrow> rightScore h < maxScore \<Longrightarrow> scores_ok (score_and_reset r1 r2 h)"
  by (auto simp: score_and_reset_def scores_ok_def Let_def)

lemma moving_inv:
  assumes "leftScore h < maxScore" "rightScore h < maxScore"
  shows "pp_inv (score_and_reset r1 r2 (paddle_collision (bounce h)))"
  unfolding pp_inv_def
proof
  show "ball_ok (score_and_reset r1 r2 (paddle_collision (bounce h)))"
    by (rule score_and_reset_ball_ok) (simp only: paddle_collision_other bounce_ball_z)
  show "scores_ok (score_and_reset r1 r2 (paddle_collision (bounce h)))"
    by (rule score_and_reset_scores_ok) (simp_all add: paddle_collision_other bounce_other assms)
qed

lemma resetGame_inv [simp]: "pp_inv (resetGame now r1 r2 g)"
  by (simp add: pp_inv_def ball_ok_def scores_ok_def resetGame_def maxScore_def)

lemma resetGame_inv_upd [simp]:
  "pp_inv ((resetGame now r1 r2 g)\<lparr>status := st\<rparr>)"
  "pp_inv ((resetGame now r1 r2 g)\<lparr>player1ready := a, player2ready := b\<rparr>)"
  "pp_inv ((resetGame now r1 r2 g)\<lparr>player1ready := a, player2ready := b, loop := l\<rparr>)"
  by (simp_all add: pp_inv_def ball_ok_def scores_ok_def resetGame_def maxScore_def)

lemma setPlayer_inv [simp]: "pp_inv (setPlayer sd nm sock pid g) = pp_inv g"
  by (rule pp_inv_cong) (simp_all add: setPlayer_def Let_def)

lemma upd_inv [simp]:
  "pp_inv (g\<lparr>status := st\<rparr>) = pp_inv g"
  "pp_inv (g\<lparr>roundN := rn\<rparr>) = pp_inv g"
  "pp_inv (g\<lparr>loop := l\<rparr>) = pp_inv g"
  "pp_inv (g\<lparr>players := ps\<rparr>) = pp_inv g"
  "pp_inv (g\<lparr>matches := ms\<rparr>) = pp_inv g"
  "pp_inv (g\<lparr>player1ready := b\<rparr>) = pp_inv g"
  "pp_inv (g\<lparr>player2ready := b\<rparr>) = pp_inv g"
  "pp_inv (g\<lparr>leftPaddle := pd\<rparr>) = pp_inv g"
  "pp_inv (g\<lparr>rightPaddle := pd\<rparr>) = pp_inv g"
  "pp_inv (g\<lparr>whenPaused := t\<rparr>) = pp_inv g"
  "pp_inv (g\<lparr>gameEndTime := t\<rparr>) = pp_inv g"
  by (simp_all add: pp_inv_def ball_ok_def scores_ok_def)

lemma finish_timeout_core:
  "finish_timeout g = Inr g'
     \<Longrightarrow> ball g' = ball g \<and> leftScore g' = leftScore g \<and> rightScore g' = rightScore g"
  by (auto simp: finish_timeout_def Let_def split: option.splits if_splits)

lemma finish_score_core:
  "finish_score k g = Inr g'
     \<Longrightarrow> ball g' = ball g \<and> leftScore g' = leftScore g \<and> rightScore g' = rightScore g"
  by (auto simp: finish_score_def Let_def split: option.splits if_splits)

text \<open>The three ways a tick can go, read off \<open>update\<close>.\<close>

lemma update_idle: "status g \<noteq> InProgress \<Longrightarrow> update now r1 r2 g = Inr g"
  by (simp add: update_def)

lemma update_timeout:
  "status g = InProgress \<Longrightarrow> now \<ge> gameEndTime g \<Longrightarrow> update now r1 r2 g = finish_timeout g"
  by (simp add: update_def Let_def)

lemma update_score_end:
  "status g = InProgress \<Longrightarrow> now < gameEndTime g
     \<Longrightarrow> leftScore g \<ge> maxScore \<or> rightScore g \<ge> maxScore
     \<Longrightarrow> update now r1 r2 g
           = finish_score (max 0 \<lfloor>(gameEndTime g - now) / 1000\<rfloor>) (g\<lparr>last_now := now\<rparr>)"
  by (auto simp add: update_def Let_def)

lemma update_moving:
  "status g = InProgress \<Longrightarrow> now < gameEndTime g
     \<Longrightarrow> leftScore g < maxScore \<Longrightarrow> rightScore g < maxScore
     \<Longrightarrow> update now r1 r2 g
           = Inr (score_and_reset r1 r2
                    (paddle_collision (bounce (move_ball (tick_dt now g) (g\<lparr>last_now := now\<rparr>)))))"
  by (auto simp add: update_def Let_def)

lemma update_inv:
  assumes "pp_inv g" "update now r1 r2 g = Inr g'"
  shows "pp_inv g'"
proof (cases "status g \<noteq> InProgress")
  case True
  with assms show ?thesis by (simp add: update_idle)
next
  case ip: False
  show ?thesis
  proof (cases "now \<ge> gameEndTime g")
    case True
    with ip assms(2) have "finish_timeout g = Inr g'" by (simp add: update_timeout)
    from finish_timeout_core[OF this] have "pp_inv g' = pp_inv g"
      by (intro pp_inv_cong) simp_all
    with assms(1) show ?thesis by simp
  next
    case nt: False
    show ?thesis
    proof (cases "leftScore g \<ge> maxScore \<or> rightScore g \<ge> maxScore")
      case True
      with ip nt assms(2)
      have "finish_score (max 0 \<lfloor>(gameEndTime g - now) / 1000\<rfloor>) (g\<lparr>last_now := now\<rparr>) = Inr g'"
        by (simp add: update_score_end)
      from finish_score_core[OF this] assms(1) show ?thesis
        by (simp add: pp_inv_def ball_ok_def scores_ok_def)
    next
      case False
      with ip nt assms(2)
      have "g' = score_and_reset r1 r2
                   (paddle_collision (bounce (move_ball (tick_dt now g) (g\<lparr>last_now := now\<rparr>))))"
        by (simp add: update_moving)
      moreover from False
      have "leftScore (move_ball (tick_dt now g) (g\<lparr>last_now := now\<rparr>)) < maxScore"
        "rightScore (move_ball (tick_dt now g) (g\<lparr>last_now := now\<rparr>)) < maxScore"
        by (simp_all add: move_ball_def)
      ultimately show ?thesis using moving_inv by simp
    qed
  qed
qed

lemma pp_seat_match_core:
  "pp_seat_match k g = Inr g'
     \<Longrightarrow> ball g' = ball g \<and> leftScore g' = leftScore g \<and> rightScore g' = rightScore g"
  by (auto simp: pp_seat_match_def split: option.splits)

lemma pp_matchmake_core:
  "pp_matchmake rnd g = Inr g'
     \<Longrightarrow> ball g' = ball g \<and> leftScore g' = leftScore g \<and> rightScore g' = rightScore g"
  by (auto simp: pp_matchmake_def Let_def split: option.splits if_splits dest!: pp_seat_match_core)

lemma pp_matchmake_inv: "pp_matchmake rnd g = Inr g' \<Longrightarrow> pp_inv g' = pp_inv g"
  by (drule pp_matchmake_core) (intro pp_inv_cong, simp_all)

lemma pp_names_inv:
  "pp_inv g \<Longrightarrow> pp_names sock pid n now r1 r2 ps g = Inr (ps', g') \<Longrightarrow> pp_inv g'"
  by (auto simp: pp_names_def Let_def split: if_splits)

lemma pp_names_tournament_inv:
  "pp_inv g \<Longrightarrow> pp_names_tournament sock pid n rnd g = Inr g' \<Longrightarrow> pp_inv g'"
  by (auto simp: pp_names_tournament_def Let_def split: if_splits dest!: pp_matchmake_inv)

lemma move_inv: "pp_inv (game (move sd z w)) = pp_inv (game w)"
  by (simp add: move_def)

lemma pp_startGame_inv: "pp_inv (game w) \<Longrightarrow> pp_inv (game (pp_startGame now r1 r2 w))"
  by (auto simp: pp_startGame_def Let_def setInterval_def split: option.splits prod.splits)

lemma pp_startGame_tournament_inv:
  "pp_inv (game w) \<Longrightarrow> pp_inv (game (pp_startGame_tournament now r1 r2 w))"
  by (auto simp: pp_startGame_tournament_def Let_def setInterval_def split: option.splits prod.splits)

lemma pp_setReady_inv: "pp_inv (game w) \<Longrightarrow> pp_inv (game (pp_setReady ps now r1 r2 w))"
  by (auto simp: pp_setReady_def Let_def intro!: pp_startGame_inv)

lemma pp_setReady_tournament_inv:
  "pp_inv (game w) \<Longrightarrow> pp_inv (game (pp_setReady_tournament pl now r1 r2 w))"
  by (auto simp: pp_setReady_tournament_def Let_def intro!: pp_startGame_tournament_inv
        split: option.splits)

lemma pp_restart_inv: "pp_inv (game w) \<Longrightarrow> pp_inv (game (pp_restart now r1 r2 w))"
  by (auto simp: pp_restart_def intro!: pp_startGame_inv)

lemma pause_inv: "pp_inv (game w) \<Longrightarrow> pp_inv (game (pause now w))"
  by (auto simp: pause_def togglePause_def Let_def setInterval_def split: prod.splits)

lemma next_round_inv: "next_round rnd g = Inr g' \<Longrightarrow> pp_inv g' = pp_inv g"
  by (auto simp: next_round_def split: sum.splits if_splits dest!: pp_matchmake_inv)

lemma after_update_inv: "pp_inv g \<Longrightarrow> after_update cb rnd g w = Inr w' \<Longrightarrow> pp_inv (game w')"
  by (auto simp: after_update_def Let_def split: if_splits dest!: map_sum_InrD next_round_inv)

lemma pp_fire_inv:
  "pp_inv (game w) \<Longrightarrow> pp_fire h now r1 r2 rnd w = Inr w' \<Longrightarrow> pp_inv (game w')"
  by (auto simp: pp_fire_def pp_tick_def split: option.splits sum.splits
        dest: update_inv after_update_inv)

lemma pp_disconnect_inv: "pp_inv (game w) \<Longrightarrow> pp_inv (game (pp_disconnect sock w))"
  by (auto simp: pp_disconnect_def Let_def)

lemma new_inv: "pp_inv (game (new_pong_world i md ty t0 t1 t2))"
  by (simp add: new_pong_world_def new_PingPongGame_def pp_inv_def ball_ok_def scores_ok_def
        maxScore_def)

lemma reachable_inv: "pong_reachable w \<Longrightarrow> pp_inv (game w)"
proof (induction rule: pong_reachable.induct)
  case (created i md ty t0 t1 t2)
  then show ?case by (rule new_inv)
next
  case (names w sock pid n now r1 r2 ps ps' g)
  then show ?case using pp_names_inv by simp
next
  case (names_tournament w sock pid n rnd g)
  then show ?case using pp_names_tournament_inv by simp
next
  case (moved w sd positionZ)
  then show ?case by (simp add: move_inv)
next
  case (ready w ps now r1 r2)
  then show ?case by (simp add: pp_setReady_inv)
next
  case (ready_tournament w pl now r1 r2)
  then show ?case by (simp add: pp_setReady_tournament_inv)
next
  case (restarted w now r1 r2)
  then show ?case by (simp add: pp_restart_inv)
next
  case (paused w now)
  then show ?case by (simp add: pause_inv)
next
  case (fired w h now r1 r2 rnd w')
  then show ?case using pp_fire_inv by blast
next
  case (disconnected w sock)
  then show ?case by (simp add: pp_disconnect_inv)
qed

subsection \<open>The example room is reachable\<close>

lemma demo_names_sel:
  "name1 demo_names = Some ''Ann''" "name2 demo_names = Some ''Bob''"
  "name3 demo_names = Some ''Cy''" "name4 demo_names = Some ''Di''"
  by (simp_all add: demo_names_def)

lemma valid_demo: "validatePlayerNames demo_names ty md = 0"
  by (simp add: validatePlayerNames_def demo_names_def bad_name_def validNameRegex_def name_char_def)

lemma pong_joined_eq:
  "pp_names ''s1'' None demo_names 0 (3/4) (1/2) (Some SLeft)
       (game (new_pong_world ''r1'' Local OneVOne 0 0 0))
     = Inr (None, pong_joined)"
  by (simp add: pp_names_def valid_demo new_pong_world_def new_PingPongGame_def Let_def setPlayer_def
        resetGame_def serve_def gameDuration_def demo_names_sel pong_joined_def demo_objs_def)

lemma pong_started_eq:
  "pp_setReady None 1000 (3/4) (1/2) ((new_pong_world ''r1'' Local OneVOne 0 0 0)\<lparr>game := pong_joined\<rparr>)
     = pong_started"
  by (simp add: pp_setReady_def pp_startGame_def find_side_def pong_joined_def pong_started_def
        new_pong_world_def Let_def resetGame_def serve_def gameDuration_def demo_objs_def
        setInterval_def)

lemma pong_started_reachable: "pong_reachable pong_started"
proof -
  have "pong_reachable ((new_pong_world ''r1'' Local OneVOne 0 0 0)\<lparr>game := pong_joined\<rparr>)"
    using pong_reachable.names [OF pong_reachable.created pong_joined_eq] .
  from pong_reachable.ready [OF this, of None 1000 "3/4" "1/2"] show ?thesis
    by (simp only: pong_started_eq)
qed

lemma pong_started_tick: "update 1016 0 0 (game pong_started) = Inr pong_ticked"
  by (simp add: update_def pong_ticked_def pong_started_def pong_joined_def Let_def tick_dt_def
        maxScore_def move_ball_def bounce_def bounds_z_def bounds_x_def paddle_collision_def
        paddleHit_def score_and_reset_def)

subsection \<open>The ball stays on the table\<close>

text \<open>
  C2. Whatever state a Paddle room has reached, and whatever the clock and the random
  draws are, when \<open>update\<close> returns the ball satisfies \<open>|x| \<le> 9.6\<close> and
  \<open>|z| \<le> 5.6\<close>.
\<close>

theorem update_keeps_ball_on_table:
  assumes "pong_reachable w" and "update now r1 r2 (game w) = Inr g'"
  shows "\<bar>ball_x (ball g')\<bar> \<le> 9.6 \<and> \<bar>ball_z (ball g')\<bar> \<le> 5.6"
proof -
  from assms(1) have "pp_inv (game w)" by (rule reachable_inv)
  from update_inv [OF this assms(2)] show ?thesis by (simp add: pp_inv_def ball_ok_def)
qed

theorem update_keeps_ball_on_table_witness:
  "pong_reachable pong_started
   \<and> update 1016 0 0 (game pong_started) = Inr pong_ticked
   \<and> \<bar>ball_x (ball pong_ticked)\<bar> \<le> 9.6 \<and> \<bar>ball_z (ball pong_ticked)\<bar> \<le> 5.6"
proof -
  have b: "\<bar>ball_x (ball pong_ticked)\<bar> \<le> 9.6 \<and> \<bar>ball_z (ball pong_ticked)\<bar> \<le> 5.6"
    by (rule update_keeps_ball_on_table [OF pong_started_reachable pong_started_tick])
  show ?thesis
    by (rule conjI [OF pong_started_reachable conjI [OF pong_started_tick b]])
qed

subsection \<open>How a tick moves the ball\<close>

lemma pong_started_facts:
  "status (game pong_started) = InProgress" "gameEndTime (game pong_started) = 121000"
  "leftScore (game pong_started) = 0" "rightScore (game pong_started) = 0"
  "last_now (game pong_started) = 1000"
  by (simp_all add: pong_started_def pong_joined_def)

lemma pong_late_tick: "update 2000 0 0 (game pong_started) = Inr pong_late"
  by (simp add: update_def pong_late_def pong_started_def pong_joined_def Let_def tick_dt_def
        maxScore_def move_ball_def bounce_def bounds_z_def bounds_x_def paddle_collision_def
        paddleHit_def score_and_reset_def)

lemma move_ball_pos:
  "ball_x (ball (move_ball dt g)) = ball_x (ball g) + ball_vx (ball g) * dt"
  "ball_z (ball (move_ball dt g)) = ball_z (ball g) + ball_vz (ball g) * dt"
  "ball_vz (ball (move_ball dt g)) = ball_vz (ball g)"
  "ball_vx (ball (move_ball dt g)) = ball_vx (ball g)"
  by (simp_all add: move_ball_def)

lemma bounce_z:
  "ball_z (ball (bounce h))
     = (if ball_z (ball h) > 5.6 then 5.6 else if ball_z (ball h) < - 5.6 then - 5.6 else ball_z (ball h))"
  "ball_vz (ball (bounce h))
     = (if ball_z (ball h) > 5.6 \<or> ball_z (ball h) < - 5.6 then - ball_vz (ball h) else ball_vz (ball h))"
  by (auto simp: bounce_def Let_def bounds_z_def)

lemma score_and_reset_pos:
  "ball (score_and_reset r1 r2 h)
     = (if ball_x (ball h) < - 9.6 \<or> ball_x (ball h) > 9.6 then serve r1 r2 else ball h)"
  by (simp add: score_and_reset_def Let_def bounds_x_def)

text \<open>
  C6, as stated, fails: the step is not the real time since the previous tick. When the
  timer fires a full second after the last tick, the ball of the example room moves by
  \<open>6 * 0.033\<close>, not by \<open>6 * 1\<close>.
\<close>

theorem update_ignores_elapsed_time_counterexample:
  "update 2000 0 0 (game pong_started) = Inr pong_late
   \<and> ball_x (ball pong_late)
       \<noteq> ball_x (ball (game pong_started))
           + ball_vx (ball (game pong_started)) * ((2000 - last_now (game pong_started)) / 1000)"
  by (simp add: pong_late_tick) (simp add: pong_late_def pong_started_def pong_joined_def)

text \<open>
  C6, amended. In a tick that neither times out nor ends the match on the score, the
  ball advances by velocity times \<open>dt\<close>, where \<open>dt\<close> is the time since the previous
  tick in seconds capped at 0.033; then, if the new \<open>z\<close> is beyond 5.6 or -5.6, it is
  set to that bound and the z-velocity changes sign. The paddle step that follows leaves
  the position alone, and the position survives the tick unless the ball has left the
  table in \<open>x\<close>, in which case it is put back to the centre.
\<close>

theorem update_moves_by_capped_dt:
  assumes "status g = InProgress" and "now < gameEndTime g"
    and "leftScore g < maxScore" and "rightScore g < maxScore"
  shows "(let dt = min ((now - last_now g) / 1000) 0.033;
              x1 = ball_x (ball g) + ball_vx (ball g) * dt;
              z1 = ball_z (ball g) + ball_vz (ball g) * dt;
              g1 = bounce (move_ball dt (g\<lparr>last_now := now\<rparr>));
              g2 = score_and_reset r1 r2 (paddle_collision g1)
          in update now r1 r2 g = Inr g2
             \<and> ball_x (ball g1) = x1
             \<and> ball_z (ball g1) = (if z1 > 5.6 then 5.6 else if z1 < - 5.6 then - 5.6 else z1)
             \<and> ball_vz (ball g1) = (if z1 > 5.6 \<or> z1 < - 5.6 then - ball_vz (ball g) else ball_vz (ball g))
             \<and> (if x1 < - 9.6 \<or> x1 > 9.6 then ball_x (ball g2) = 0 \<and> ball_z (ball g2) = 0
                 else ball_x (ball g2) = ball_x (ball g1) \<and> ball_z (ball g2) = ball_z (ball g1)))"
proof -
  let ?dt = "min ((now - last_now g) / 1000) 0.033"
  let ?m = "move_ball ?dt (g\<lparr>last_now := now\<rparr>)"
  have u: "update now r1 r2 g = Inr (score_and_reset r1 r2 (paddle_collision (bounce ?m)))"
    using update_moving [OF assms] by (simp add: tick_dt_def)
  have x: "ball_x (ball (bounce ?m)) = ball_x (ball g) + ball_vx (ball g) * ?dt"
    by (simp add: bounce_other move_ball_pos)
  have z: "ball_z (ball ?m) = ball_z (ball g) + ball_vz (ball g) * ?dt"
    and v: "ball_vz (ball ?m) = ball_vz (ball g)"
    by (simp_all add: move_ball_pos)
  have p: "ball_x (ball (paddle_collision (bounce ?m))) = ball_x (ball (bounce ?m))"
    "ball_z (ball (paddle_collision (bounce ?m))) = ball_z (ball (bounce ?m))"
    by (simp_all add: paddle_collision_other)
  show ?thesis
    unfolding Let_def
    apply (intro conjI)
        apply (rule u)
       apply (rule x)
      apply (simp only: bounce_z z)
     apply (simp only: bounce_z z v)
    apply (simp only: score_and_reset_pos p x serve_centre split: if_splits)
    apply simp
    done
qed

theorem update_moves_by_capped_dt_witness:
  "status (game pong_started) = InProgress \<and> (2000::real) < gameEndTime (game pong_started)
   \<and> leftScore (game pong_started) < maxScore \<and> rightScore (game pong_started) < maxScore
   \<and> update 2000 0 0 (game pong_started) = Inr pong_late
   \<and> ball_x (ball pong_late)
       = ball_x (ball (game pong_started)) + ball_vx (ball (game pong_started)) * 0.033"
proof -
  have a: "status (game pong_started) = InProgress"
    and b: "(2000::real) < gameEndTime (game pong_started)"
    and c: "leftScore (game pong_started) < maxScore"
    and d: "rightScore (game pong_started) < maxScore"
    by (simp_all add: pong_started_facts maxScore_def)
  have m: "min ((2000 - last_now (game pong_started)) / 1000) (0.033::real) = 0.033"
    by (simp add: pong_started_facts)
  from update_moves_by_capped_dt [OF a b c d, of 0 0]
  have e: "update 2000 0 0 (game pong_started)
             = Inr (score_and_reset 0 0 (paddle_collision
                      (bounce (move_ball 0.033 ((game pong_started)\<lparr>last_now := 2000\<rparr>)))))"
    and f: "ball_x (ball (bounce (move_ball 0.033 ((game pong_started)\<lparr>last_now := 2000\<rparr>))))
             = ball_x (ball (game pong_started)) + ball_vx (ball (game pong_started)) * 0.033"
    unfolding Let_def m by blast+
  have g: "ball_x (ball pong_late)
       = ball_x (ball (game pong_started)) + ball_vx (ball (game pong_started)) * 0.033"
    by (simp add: pong_late_def pong_started_def pong_joined_def)
  have h: "update 2000 0 0 (game pong_started) = Inr pong_late"
    using e pong_late_tick by simp
  show ?thesis by (intro conjI a b c d g h)
qed

subsection \<open>Leaving the table in x\<close>









section \<open>Properties of the Reaction engine\<close>

text \<open>
  C10. In a local-mode Reaction match that is in progress with a positive countdown, a
  key that is neither one of w, s, a, d nor one of the four arrow keys changes nothing:
  the handler returns the room as it was, so both scores and both prompts are unchanged.
\<close>

theorem keypress_local_foreign_key_noop:
  assumes "status s = InProgress" and "0 < timeLeft s"
    and "key \<notin> set wasdKeys" and "key \<notin> set arrowKeys"
  shows "keypress Local pl key r s = s"
  using assms by (simp add: keypress_def)

theorem keypress_local_foreign_key_noop_witness:
  "status ((newKeyClash ''k1'' Local OneVOne)\<lparr>status := InProgress\<rparr>) = InProgress
   \<and> 0 < timeLeft ((newKeyClash ''k1'' Local OneVOne)\<lparr>status := InProgress\<rparr>)
   \<and> ''x'' \<notin> set wasdKeys \<and> ''x'' \<notin> set arrowKeys
   \<and> keypress Local 0 ''x'' 0 ((newKeyClash ''k1'' Local OneVOne)\<lparr>status := InProgress\<rparr>)
       = (newKeyClash ''k1'' Local OneVOne)\<lparr>status := InProgress\<rparr>"
proof -
  let ?s = "(newKeyClash ''k1'' Local OneVOne)\<lparr>status := InProgress\<rparr>"
  have a: "status ?s = InProgress" by simp
  have b: "0 < timeLeft ?s" by (simp add: newKeyClash_def)
  have c: "''x'' \<notin> set wasdKeys" by (simp add: wasdKeys_def)
  have d: "''x'' \<notin> set arrowKeys" by (simp add: arrowKeys_def)
  from keypress_local_foreign_key_noop [OF a b c d, of 0 0] a b c d show ?thesis by simp
qed

text \<open>The other half of the remark in C10: a key of one of the two sets that is not the
  prompt of its column costs that column one point and changes nothing else.\<close>

lemma keypress_local_wrong_key_decrements:
  assumes "status s = InProgress" and "0 < timeLeft s"
  shows "key \<in> set wasdKeys \<Longrightarrow> key \<noteq> fst (prompts s)
           \<Longrightarrow> keypress Local pl key r s = s\<lparr>score1 := score1 s - 1\<rparr>"
    and "key \<notin> set wasdKeys \<Longrightarrow> key \<in> set arrowKeys \<Longrightarrow> key \<noteq> snd (prompts s)
           \<Longrightarrow> keypress Local pl key r s = s\<lparr>score2 := score2 s - 1\<rparr>"
  using assms by (simp_all add: keypress_def)

end
